theory Spec2Isabelle
  imports
    Main
    "HOL-Library.Finite_Map"
    "HOL-Library.Char_ord"
    "HOL-Library.List_Lexorder"
    "HOL-Library.Multiset"
    "HOL-Library.Word"
begin

section \<open>message/message.go: categories, phases, bodies and envelopes\<close>

text \<open>
  \<^verbatim>\<open>_MessageCategory\<close> and \<^verbatim>\<open>_MessagePhase\<close> are Go string types; the named
  constants are the one-character codes. Any other string is a value of the type too
  (an envelope decoded from the wire can carry it), so both are modelled as strings.
  Go compares strings byte by byte, which is the lexicographic order on \<open>char list\<close>.
\<close>

type_synonym MessageCategory = string
type_synonym MessagePhase = string

definition NOTICE :: MessageCategory where "NOTICE = ''1''"
definition SIMPLEX :: MessageCategory where "SIMPLEX = ''2''"
definition DUPLEX :: MessageCategory where "DUPLEX = ''3''"

definition SenderReq :: MessagePhase where "SenderReq = ''1''"
definition ReceiverAck :: MessagePhase where "ReceiverAck = ''2''"
definition SenderAck :: MessagePhase where "SenderAck = ''3''"

text \<open>The two \<^verbatim>\<open>String()\<close> methods: a table lookup with the default \<^verbatim>\<open>"Unknown"\<close>.\<close>

definition MessageCategory_String :: "MessageCategory \<Rightarrow> string" where
  "MessageCategory_String n =
     (case map_of [(''1'', ''NOTICE''), (''2'', ''SIMPLEX''), (''3'', ''DUPLEX'')] n of
        Some v \<Rightarrow> v
      | None \<Rightarrow> ''Unknown'')"

definition MessagePhase_String :: "MessagePhase \<Rightarrow> string" where
  "MessagePhase_String n =
     (case map_of [(''1'', ''SENDER_REQ''), (''2'', ''RECEIVER_ACK''), (''3'', ''SENDER_ACK'')] n of
        Some v \<Rightarrow> v
      | None \<Rightarrow> ''Unknown'')"

subsection \<open>MsgBody\<close>

text \<open>
  \<^verbatim>\<open>MsgBody\<close> wraps one \<^verbatim>\<open>map[string]string\<close>: a finite map. A nil map reads like the
  empty one (\<^verbatim>\<open>len\<close> is 0, every lookup misses), so both are \<open>fmempty\<close>. A
  \<^verbatim>\<open>*MsgBody\<close> that may be nil is a \<open>MsgBody option\<close> at the place that holds it.
\<close>

type_synonym MsgBody = "(string, string) fmap"

definition NewMessageBody :: MsgBody where
  "NewMessageBody = fmempty"

text \<open>
  \<^verbatim>\<open>Add\<close> stores the string form of the value; \<^verbatim>\<open>utils.ToStr\<close> is a library function
  outside the repository and is taken as the parameter \<open>toStr\<close>.
\<close>

definition Add :: "('v \<Rightarrow> string) \<Rightarrow> MsgBody \<Rightarrow> string \<Rightarrow> 'v \<Rightarrow> MsgBody" where
  "Add toStr mb key v =
     (let mb' = (if fcard (fmdom mb) < 1 then fmempty else mb)
      in fmupd key (toStr v) mb')"

definition HasKey :: "MsgBody \<Rightarrow> string \<Rightarrow> bool" where
  "HasKey mb key = (fmlookup mb key \<noteq> None)"

text \<open>Indexing a Go map with a missing key gives the zero value, the empty string.\<close>

definition Get :: "MsgBody \<Rightarrow> string \<Rightarrow> string" where
  "Get mb key = (case fmlookup mb key of Some v \<Rightarrow> v | None \<Rightarrow> [])"

text \<open>
  \<^verbatim>\<open>ToString\<close>: the keys are collected by ranging over the map (in no fixed order) and
  sorted with \<^verbatim>\<open>sort.Strings\<close>; the result is the sorted list of the key set. The loop
  over the sorted keys carries its index and the buffer.
\<close>

definition sorted_keys :: "MsgBody \<Rightarrow> string list" where
  "sorted_keys mb = sorted_list_of_fset (fmdom mb)"

fun write_entries :: "MsgBody \<Rightarrow> nat \<Rightarrow> string list \<Rightarrow> string \<Rightarrow> string" where
  \<open>write_entries mb i [] buffer = buffer\<close>
| \<open>write_entries mb i (k # ks) buffer =
     write_entries mb (Suc i) ks
       (buffer @ (if i > 0 then '','' else []) @ ''"'' @ k @ ''":"'' @ Get mb k @ ''"'')\<close>

definition ToString :: "MsgBody \<Rightarrow> string" where
  "ToString mb =
     (let size = fcard (fmdom mb) in
      if size = 0 then []
      else write_entries mb 0 (sorted_keys mb) ''{'' @ ''}'')"

text \<open>
  The canonical form in the words of the specification: nothing for the empty body,
  otherwise the entries \<^verbatim>\<open>"k":"v"\<close> separated by commas between braces.
\<close>

fun join :: "string \<Rightarrow> string list \<Rightarrow> string" where
  "join sep [] = []"
| "join sep [x] = x"
| "join sep (x # y # ys) = x @ sep @ join sep (y # ys)"

definition entry :: "MsgBody \<Rightarrow> string \<Rightarrow> string" where
  \<open>entry mb k = ''"'' @ k @ ''":"'' @ Get mb k @ ''"''\<close>

definition canonicalSerialize :: "MsgBody \<Rightarrow> string list \<Rightarrow> string" where
  "canonicalSerialize mb ks = (if ks = [] then [] else ''{'' @ join '','' (map (entry mb) ks) @ ''}'')"

text \<open>Filling a body: the entries of a list are added one after the other.\<close>

definition add_all :: "('v \<Rightarrow> string) \<Rightarrow> (string \<times> 'v) list \<Rightarrow> MsgBody \<Rightarrow> MsgBody" where
  "add_all toStr es mb = fold (\<lambda>(k, v) b. Add toStr b k v) es mb"

subsection \<open>Typed messages\<close>

text \<open>
  \<^verbatim>\<open>NoticeMessage\<close>, \<^verbatim>\<open>SimplexMessage\<close> and \<^verbatim>\<open>DuplexMessage\<close> embed \<^verbatim>\<open>Message\<close>
  (genre, msgId, Body) and add their queue names. The listener and \<^verbatim>\<open>Send\<close> take
  them as \<^verbatim>\<open>interface{}\<close> and switch on the dynamic type: a tagged union. The body is a
  pointer and may be nil.
\<close>

datatype message =
    NoticeMessage (genre: string) (msgId: string) (Body: "MsgBody option") (Destination: string)
  | SimplexMessage (genre: string) (msgId: string) (Body: "MsgBody option")
      (Source: string) (Destination: string)
  | DuplexMessage (genre: string) (msgId: string) (Body: "MsgBody option")
      (Source: string) (DestinationNew: string) (DestinationAck: string)

definition NewNoticeMessage :: "string \<Rightarrow> message" where
  "NewNoticeMessage mid = NoticeMessage [] mid None []"

definition NewSimplexMessage :: "string \<Rightarrow> message" where
  "NewSimplexMessage mid = SimplexMessage [] mid None [] []"

definition NewDuplexMessage :: "string \<Rightarrow> message" where
  "NewDuplexMessage mid = DuplexMessage [] mid None [] [] []"

definition GetGenre :: "message \<Rightarrow> string" where
  "GetGenre msg = genre msg"

subsection \<open>MsgPayload, the envelope\<close>

record MsgPayload =
  Category :: MessageCategory
  Genre :: string
  MsgId :: string
  SrcAckQueue :: string
  DstNewQueue :: string
  DstAckQueue :: string
  Body :: "MsgBody option"
  SendTime :: "64 word"
  Phase :: MessagePhase
  Sign :: string

text \<open>
  Errors are built with \<^verbatim>\<open>fmt.Errorf\<close> and are told apart by their text only. One
  constructor stands for each text of the source: "invalid message phase" (with the
  phase as the text shows it), "invalid message type" (with the category), the three "not a notice / simplex /
  duplex message" texts of the conversions, "queue name does not follow the convention"
  (with the name), and \<open>OtherError\<close> for whatever the application's listener or the
  transport returns.
\<close>

datatype error =
    InvalidPhase MessagePhase
  | InvalidCategory MessageCategory
  | NotNotice
  | NotSimplex
  | NotDuplex
  | InvalidQueueName string
  | OtherError string

text \<open>A run-time panic of Go; the only one on these paths is the nil dereference.\<close>

datatype go_panic = NilPointerDereference

definition SetBody :: "MsgPayload \<Rightarrow> MsgBody option \<Rightarrow> MsgPayload" where
  "SetBody mpl body = mpl\<lparr>Body := body\<rparr>"

definition SetSign :: "MsgPayload \<Rightarrow> string \<Rightarrow> MsgPayload" where
  "SetSign mpl sign = mpl\<lparr>Sign := sign\<rparr>"

text \<open>The conversions return the message and the error together, as the source does.\<close>

definition ConvertToNotice :: "MsgPayload \<Rightarrow> message \<times> error option" where
  "ConvertToNotice mpl =
     (let msg = NewNoticeMessage (MsgId mpl) in
      if Category mpl \<noteq> NOTICE then (msg, Some NotNotice)
      else (NoticeMessage (Genre mpl) (msgId msg) (Body mpl) (DstNewQueue mpl), None))"

definition ConvertToSimplex :: "MsgPayload \<Rightarrow> message \<times> error option" where
  "ConvertToSimplex mpl =
     (let msg = NewSimplexMessage (MsgId mpl) in
      if Category mpl \<noteq> SIMPLEX then (msg, Some NotSimplex)
      else (SimplexMessage (Genre mpl) (msgId msg) (Body mpl) (SrcAckQueue mpl) (DstNewQueue mpl),
            None))"

definition ConvertToDuplex :: "MsgPayload \<Rightarrow> message \<times> error option" where
  "ConvertToDuplex mpl =
     (let msg = NewDuplexMessage (MsgId mpl) in
      if Category mpl \<noteq> DUPLEX then (msg, Some NotDuplex)
      else (DuplexMessage (Genre mpl) (msgId msg) (Body mpl) (SrcAckQueue mpl)
              (DstNewQueue mpl) (DstAckQueue mpl), None))"

text \<open>
  \<^verbatim>\<open>SendQueueName\<close> formats its error with \<^verbatim>\<open>%s\<close>, which prints the phase through
  its \<^verbatim>\<open>String()\<close> method; the handlers format theirs with \<^verbatim>\<open>%d\<close>, which shows the
  raw value.
\<close>

definition SendQueueName :: "MsgPayload \<Rightarrow> error + string" where
  "SendQueueName mpl =
     (if Phase mpl = SenderReq then Inr (DstNewQueue mpl)
      else if Phase mpl = ReceiverAck then Inr (SrcAckQueue mpl)
      else if Phase mpl = SenderAck then Inr (DstAckQueue mpl)
      else Inl (InvalidPhase (MessagePhase_String (Phase mpl))))"

text \<open>
  \<^verbatim>\<open>utils.MD5\<close> and \<^verbatim>\<open>utils.ToStr\<close> belong to a library outside the repository; they
  are parameters, gathered in one record. \<^verbatim>\<open>time.Now().Unix()\<close> is the parameter
  \<open>now\<close> of the functions that read the clock.
\<close>

record utils =
  MD5 :: "string \<Rightarrow> string"
  ToStr :: "64 word \<Rightarrow> string"

text \<open>
  \<^verbatim>\<open>Signature\<close> writes into a local buffer and hashes it. \<^verbatim>\<open>mpl.Body.ToString()\<close>
  reads \<^verbatim>\<open>mb.Body\<close> through the pointer: with a nil body the call panics.
\<close>

definition Signature :: "utils \<Rightarrow> MsgPayload \<Rightarrow> go_panic + string" where
  \<open>Signature u mpl =
     (case Body mpl of
        None \<Rightarrow> Inl NilPointerDereference
      | Some mb \<Rightarrow>
          Inr (MD5 u
            (''category='' @ MessageCategory_String (Category mpl) @
             ''type='' @ Genre mpl @
             ''msgId='' @ MsgId mpl @
             ''queue='' @ SrcAckQueue mpl @ DstAckQueue mpl @ DstNewQueue mpl @
             ''body='' @ ToString mb @
             ''@phase='' @ MessagePhase_String (Phase mpl) @
             ''@sendTime='' @ ToStr u (SendTime mpl) @
             ''@#$dz874&*&*#@@$^&^FS()()!@FSF'')))\<close>

text \<open>
  \<^verbatim>\<open>NewPayload\<close>: the value it returns. The composite literal leaves \<^verbatim>\<open>Body\<close> nil and
  \<^verbatim>\<open>Sign\<close> empty; the two assignments follow.
\<close>

definition NewPayload :: "utils \<Rightarrow> 64 word \<Rightarrow> MsgPayload \<Rightarrow> MessagePhase \<Rightarrow> go_panic + MsgPayload" where
  "NewPayload u now msg phase =
     (let mpl = \<lparr>Category = Category msg, Genre = Genre msg, MsgId = MsgId msg,
                 SrcAckQueue = SrcAckQueue msg, DstNewQueue = DstNewQueue msg,
                 DstAckQueue = DstAckQueue msg, Body = None, SendTime = now,
                 Phase = phase, Sign = []\<rparr>;
          mpl = mpl\<lparr>Body := Body msg\<rparr>
      in case Signature u mpl of
           Inl p \<Rightarrow> Inl p
         | Inr s \<Rightarrow> Inr (mpl\<lparr>Sign := s\<rparr>))"

text \<open>
  \<^verbatim>\<open>NewPayload\<close> once more, with the pointers written out: envelopes live in a store (a
  list, an address is an index), \<^verbatim>\<open>&MsgPayload{...}\<close> allocates at the end, and the two
  assignments write through the new pointer. The result is the store after the call and
  the new address, or the panic.
\<close>

type_synonym store = "MsgPayload list"

definition NewPayload_store ::
  "utils \<Rightarrow> 64 word \<Rightarrow> store \<Rightarrow> nat \<Rightarrow> MessagePhase \<Rightarrow> store \<times> (go_panic + nat)" where
  "NewPayload_store u now h msg phase =
     (if length h \<le> msg then (h, Inl NilPointerDereference)
      else
        let mpl = length h;
            h1 = h @ [\<lparr>Category = Category (h ! msg), Genre = Genre (h ! msg),
                       MsgId = MsgId (h ! msg), SrcAckQueue = SrcAckQueue (h ! msg),
                       DstNewQueue = DstNewQueue (h ! msg), DstAckQueue = DstAckQueue (h ! msg),
                       Body = None, SendTime = now, Phase = phase, Sign = []\<rparr>];
            h2 = h1[mpl := (h1 ! mpl)\<lparr>Body := Body (h1 ! msg)\<rparr>]
        in case Signature u (h2 ! mpl) of
             Inl p \<Rightarrow> (h2, Inl p)
           | Inr s \<Rightarrow> (h2[mpl := (h2 ! mpl)\<lparr>Sign := s\<rparr>], Inr mpl))"

section \<open>handler.go: the handshake\<close>

text \<open>
  The listener is the application's: three callbacks, each a function of its arguments.
  A handler returns the calls it made to the listener, in order, and then either the
  pair (reply envelope or nil, error or nil) or the panic that ended it.
\<close>

record MessageListener =
  OnReceived :: "message \<Rightarrow> MsgBody option \<times> error option"
  OnRecipientAckReceived :: "string \<Rightarrow> string \<Rightarrow> MsgBody option \<Rightarrow> MsgBody option \<times> error option"
  OnSenderAckReceived :: "string \<Rightarrow> string \<Rightarrow> MsgBody option \<Rightarrow> error option"

datatype listener_call =
    Received message
  | RecipientAckReceived string string "MsgBody option"
  | SenderAckReceived string string "MsgBody option"

type_synonym handled = "listener_call list \<times> (go_panic + MsgPayload option \<times> error option)"

definition noticeNew :: "MsgPayload \<Rightarrow> MessageListener \<Rightarrow> handled" where
  "noticeNew msg listener =
     (let phase = Phase msg in
      if phase \<noteq> SenderReq then ([], Inr (None, Some (InvalidPhase (Phase msg))))
      else case ConvertToNotice msg of
          (nm, Some err) \<Rightarrow> ([], Inr (None, Some err))
        | (nm, None) \<Rightarrow>
            (case OnReceived listener nm of
               (rsp, err) \<Rightarrow> ([Received nm], Inr (None, err))))"

definition simplexNew :: "utils \<Rightarrow> 64 word \<Rightarrow> MsgPayload \<Rightarrow> MessageListener \<Rightarrow> handled" where
  "simplexNew u now mpl listener =
     (let phase = Phase mpl in
      if phase \<noteq> SenderReq then ([], Inr (None, Some (InvalidPhase phase)))
      else case ConvertToSimplex mpl of
          (m, Some err) \<Rightarrow> ([], Inr (None, Some err))
        | (m, None) \<Rightarrow>
            (case OnReceived listener m of
               (None, err) \<Rightarrow> ([Received m], Inr (None, err))
             | (Some rsp, err) \<Rightarrow>
                 ([Received m],
                  case NewPayload u now mpl ReceiverAck of
                    Inl p \<Rightarrow> Inl p
                  | Inr returnMsg \<Rightarrow>
                      (let returnMsg = SetBody returnMsg (Some rsp) in
                       case Signature u returnMsg of
                         Inl p \<Rightarrow> Inl p
                       | Inr s \<Rightarrow> Inr (Some (SetSign returnMsg s), err)))))"

definition duplexNew :: "utils \<Rightarrow> 64 word \<Rightarrow> MsgPayload \<Rightarrow> MessageListener \<Rightarrow> handled" where
  "duplexNew u now mpl listener =
     (let phase = Phase mpl in
      if phase \<noteq> SenderReq then ([], Inr (None, Some (InvalidPhase phase)))
      else case ConvertToDuplex mpl of
          (m, Some err) \<Rightarrow> ([], Inr (None, Some err))
        | (m, None) \<Rightarrow>
            (case OnReceived listener m of
               (None, err) \<Rightarrow> ([Received m], Inr (None, err))
             | (Some rsp, err) \<Rightarrow>
                 ([Received m],
                  case NewPayload u now mpl ReceiverAck of
                    Inl p \<Rightarrow> Inl p
                  | Inr returnMsg \<Rightarrow>
                      (let returnMsg = SetBody returnMsg (Some rsp) in
                       case Signature u returnMsg of
                         Inl p \<Rightarrow> Inl p
                       | Inr s \<Rightarrow> Inr (Some (SetSign returnMsg s), err)))))"

definition simplexRecipientACK :: "MsgPayload \<Rightarrow> MessageListener \<Rightarrow> handled" where
  "simplexRecipientACK mpl listener =
     (let phase = Phase mpl in
      if phase \<noteq> ReceiverAck then ([], Inr (None, Some (InvalidPhase (Phase mpl))))
      else case OnRecipientAckReceived listener (Genre mpl) (MsgId mpl) (Body mpl) of
          (rsp, err) \<Rightarrow>
            ([RecipientAckReceived (Genre mpl) (MsgId mpl) (Body mpl)], Inr (None, err)))"

definition duplexRecipientACK :: "utils \<Rightarrow> 64 word \<Rightarrow> MsgPayload \<Rightarrow> MessageListener \<Rightarrow> handled" where
  "duplexRecipientACK u now mpl listener =
     (let phase = Phase mpl in
      if phase \<noteq> ReceiverAck then ([], Inr (None, Some (InvalidPhase (Phase mpl))))
      else case OnRecipientAckReceived listener (Genre mpl) (MsgId mpl) (Body mpl) of
          (None, err) \<Rightarrow>
            ([RecipientAckReceived (Genre mpl) (MsgId mpl) (Body mpl)], Inr (None, err))
        | (Some rsp, err) \<Rightarrow>
            ([RecipientAckReceived (Genre mpl) (MsgId mpl) (Body mpl)],
             case NewPayload u now mpl SenderAck of
               Inl p \<Rightarrow> Inl p
             | Inr returnMsg \<Rightarrow>
                 (let returnMsg = SetBody returnMsg (Some rsp) in
                  case Signature u returnMsg of
                    Inl p \<Rightarrow> Inl p
                  | Inr s \<Rightarrow> Inr (Some (SetSign returnMsg s), err))))"

definition duplexSenderACK :: "MsgPayload \<Rightarrow> MessageListener \<Rightarrow> handled" where
  "duplexSenderACK mpl listener =
     (let phase = Phase mpl in
      if phase \<noteq> SenderAck then ([], Inr (None, Some (InvalidPhase (Phase mpl))))
      else ([SenderAckReceived (Genre mpl) (MsgId mpl) (Body mpl)],
            Inr (None, OnSenderAckReceived listener (Genre mpl) (MsgId mpl) (Body mpl))))"

definition HandleNew :: "utils \<Rightarrow> 64 word \<Rightarrow> MsgPayload \<Rightarrow> MessageListener \<Rightarrow> handled" where
  "HandleNew u now msg listener =
     (if Category msg = NOTICE then noticeNew msg listener
      else if Category msg = SIMPLEX then simplexNew u now msg listener
      else if Category msg = DUPLEX then duplexNew u now msg listener
      else ([], Inr (None, Some (InvalidCategory (Category msg)))))"

definition HandleAck :: "utils \<Rightarrow> 64 word \<Rightarrow> MsgPayload \<Rightarrow> MessageListener \<Rightarrow> handled" where
  "HandleAck u now msg listener =
     (if Category msg = SIMPLEX then
        (let phase = Phase msg in
         if phase = ReceiverAck then simplexRecipientACK msg listener
         else ([], Inr (None, Some (InvalidPhase (Phase msg)))))
      else if Category msg = DUPLEX then
        (let phase = Phase msg in
         if phase = ReceiverAck then duplexRecipientACK u now msg listener
         else if phase = SenderAck then duplexSenderACK msg listener
         else ([], Inr (None, Some (InvalidPhase (Phase msg)))))
      else ([], Inr (None, Some (InvalidCategory (Category msg)))))"

text \<open>Reading a handler's result.\<close>

definition listener_calls :: "handled \<Rightarrow> listener_call list" where
  "listener_calls r = fst r"

definition reply_envelope :: "handled \<Rightarrow> MsgPayload option" where
  "reply_envelope r = (case snd r of Inl p \<Rightarrow> None | Inr (rpl, err) \<Rightarrow> rpl)"

definition returned_error :: "handled \<Rightarrow> error option" where
  "returned_error r = (case snd r of Inl p \<Rightarrow> None | Inr (rpl, e) \<Rightarrow> e)"

definition panicked :: "handled \<Rightarrow> bool" where
  "panicked r = (case snd r of Inl p \<Rightarrow> True | Inr x \<Rightarrow> False)"

section \<open>node/node.go\<close>

type_synonym Node = int

definition BIZ :: Node where "BIZ = 0"
definition FUND :: Node where "FUND = 1"
definition OPT :: Node where "OPT = 2"

definition Node_String :: "Node \<Rightarrow> string" where
  "Node_String n =
     (if n < BIZ \<or> n > OPT then ''Unknown''
      else [''biz'', ''fund'', ''opt''] ! nat n)"

text \<open>\<^verbatim>\<open>IsValid\<close> returns nil for a known node and an error otherwise.\<close>

definition IsValid :: "Node \<Rightarrow> error option" where
  "IsValid n =
     (if n = BIZ \<or> n = FUND \<or> n = OPT then None
      else Some (OtherError ''invalid leave type''))"

definition GetNode :: "string \<Rightarrow> Node" where
  "GetNode node =
     (if node = Node_String BIZ then BIZ
      else if node = Node_String FUND then FUND
      else if node = Node_String OPT then OPT
      else - 1)"

definition HasNode :: "string \<Rightarrow> bool" where
  "HasNode node = (if IsValid (GetNode node) = None then True else False)"

section \<open>client.go: checking queue names before a send\<close>

text \<open>
  \<^verbatim>\<open>newClient\<close> compiles one of two patterns, by the number of partitions:
  \<^verbatim>\<open>(sys_amq_\d{4})_(.+)\<close> for one partition and \<^verbatim>\<open>(sys_amq_\d{4})_(.+)_p\d+\<close>
  otherwise. \<^verbatim>\<open>FindStringSubmatch\<close> searches the name for the leftmost match (the
  patterns are not anchored) and returns the whole match and the two groups, or nothing.
  In Go's syntax \<^verbatim>\<open>\d\<close> is an ASCII digit, \<^verbatim>\<open>.\<close> is any character but the newline, and
  \<^verbatim>\<open>+\<close> takes as much as it can. The matcher below is written for these two patterns.
\<close>

datatype pattern = SinglePartition | MultiPartition

definition is_digit :: "char \<Rightarrow> bool" where
  "is_digit c = (CHR ''0'' \<le> c \<and> c \<le> CHR ''9'')"

definition not_newline :: "char \<Rightarrow> bool" where
  "not_newline c = (c \<noteq> CHR 0x0A)"

text \<open>The common head \<^verbatim>\<open>(sys_amq_\d{4})_\<close> at the start of \<open>s\<close>: group 1 and the rest.\<close>

definition match_head :: "string \<Rightarrow> (string \<times> string) option" where
  "match_head s =
     (if take 8 s = ''sys_amq_'' \<and> length (take 4 (drop 8 s)) = 4
         \<and> list_all is_digit (take 4 (drop 8 s)) \<and> take 1 (drop 12 s) = ''_''
      then Some (take 12 s, drop 13 s)
      else None)"

text \<open>
  After the head: \<^verbatim>\<open>(.+)\<close> to the end of the line for the first pattern; for the second
  the longest \<^verbatim>\<open>(.+)\<close> that is followed by \<^verbatim>\<open>_p\<close> and a digit, and then all the digits.
  Each returns group 2 and the text matched after the head.
\<close>

definition match_tail_single :: "string \<Rightarrow> (string \<times> string) option" where
  "match_tail_single r =
     (let run = takeWhile not_newline r in
      if run = [] then None else Some (run, run))"

definition starts_partition :: "string \<Rightarrow> bool" where
  "starts_partition t =
     (take 2 t = ''_p'' \<and> (case drop 2 t of [] \<Rightarrow> False | d # _ \<Rightarrow> is_digit d))"

definition match_tail_multi :: "string \<Rightarrow> (string \<times> string) option" where
  "match_tail_multi r =
     (let run = takeWhile not_newline r in
      case filter (\<lambda>j. starts_partition (drop j run)) (rev [1..<length run]) of
        [] \<Rightarrow> None
      | j # _ \<Rightarrow>
          Some (take j run, take j run @ ''_p'' @ takeWhile is_digit (drop (j + 2) run)))"

definition match_at :: "pattern \<Rightarrow> string \<Rightarrow> string list" where
  "match_at pat s =
     (case match_head s of
        None \<Rightarrow> []
      | Some (g1, r) \<Rightarrow>
          (case (case pat of SinglePartition \<Rightarrow> match_tail_single r
                           | MultiPartition \<Rightarrow> match_tail_multi r) of
             None \<Rightarrow> []
           | Some (g2, t) \<Rightarrow> [g1 @ ''_'' @ t, g1, g2]))"

fun FindStringSubmatch :: "pattern \<Rightarrow> string \<Rightarrow> string list" where
  "FindStringSubmatch pat [] = []"
| "FindStringSubmatch pat (c # cs) =
     (case match_at pat (c # cs) of
        [] \<Rightarrow> FindStringSubmatch pat cs
      | m \<Rightarrow> m)"

text \<open>
  The client, with the fields the check and the send read. The provider is the
  transport; of its interface only \<^verbatim>\<open>Send\<close> is called here.
\<close>

record Client =
  systemId :: string
  node :: Node
  queueNamePattern :: pattern
  partitions :: int
  provider_Send :: "message \<Rightarrow> error option"

definition newClient_pattern :: "int \<Rightarrow> pattern" where
  "newClient_pattern parts = (if parts = 1 then SinglePartition else MultiPartition)"

text \<open>
  \<^verbatim>\<open>messageCheck\<close>: the names of the message by its type, then the loop over them. A
  name without a match ends the check with an error. A name whose node is not a known
  one is written to the error log (kept here as the list of logged node names), and the
  loop goes on.
\<close>

definition nameList :: "message \<Rightarrow> string list" where
  "nameList msg =
     (case msg of
        NoticeMessage g i b dst \<Rightarrow> [dst]
      | SimplexMessage g i b src dst \<Rightarrow> [src, dst]
      | DuplexMessage g i b src dstNew dstAck \<Rightarrow> [src, dstNew, dstAck])"

fun check_names :: "pattern \<Rightarrow> string list \<Rightarrow> string list \<Rightarrow> string list \<times> error option" where
  "check_names pat [] logged = (logged, None)"
| "check_names pat (name # names) logged =
     (let m = FindStringSubmatch pat name in
      if length m = 0 then (logged, Some (InvalidQueueName name))
      else
        let nodeName = m ! 2 in
        if IsValid (GetNode nodeName) \<noteq> None then check_names pat names (logged @ [nodeName])
        else check_names pat names logged)"

definition messageCheck :: "Client \<Rightarrow> message \<Rightarrow> string list \<times> (error + message)" where
  "messageCheck c msg =
     (case check_names (queueNamePattern c) (nameList msg) [] of
        (logged, Some e) \<Rightarrow> (logged, Inl e)
      | (logged, None) \<Rightarrow> (logged, Inr msg))"

text \<open>
  \<^verbatim>\<open>Send\<close> returns the error log, the messages handed to the transport, and its error
  result.
\<close>

definition Send :: "Client \<Rightarrow> message \<Rightarrow> string list \<times> message list \<times> error option" where
  "Send c msg =
     (case messageCheck c msg of
        (logged, Inl e) \<Rightarrow> (logged, [], Some e)
      | (logged, Inr msg') \<Rightarrow> (logged, [msg'], provider_Send c msg'))"

text \<open>
  The statements that build and sign the reply are the same in \<^verbatim>\<open>simplexNew\<close>,
  \<^verbatim>\<open>duplexNew\<close> and \<^verbatim>\<open>duplexRecipientACK\<close>; they are named here for the proofs.
  \<open>variant\<close> is the typed message that \<^verbatim>\<open>HandleNew\<close> hands to the listener for a
  transactional envelope.
\<close>

definition build_reply :: "utils \<Rightarrow> 64 word \<Rightarrow> MsgPayload \<Rightarrow> MessagePhase \<Rightarrow> MsgBody \<Rightarrow> error option \<Rightarrow> (go_panic + MsgPayload option \<times> error option)" where
  "build_reply u now mpl ph rsp e = (case NewPayload u now mpl ph of
        Inl p \<Rightarrow> Inl p
      | Inr returnMsg \<Rightarrow>
          (let returnMsg = SetBody returnMsg (Some rsp) in
           case Signature u returnMsg of
             Inl p \<Rightarrow> Inl p
           | Inr s \<Rightarrow> Inr (Some (SetSign returnMsg s), e)))"

definition variant :: "MsgPayload \<Rightarrow> message" where
  "variant msg =
     (if Category msg = SIMPLEX then fst (ConvertToSimplex msg) else fst (ConvertToDuplex msg))"

section \<open>The handshake table of the specification\<close>

text \<open>
  The two entry points, and the table of section 4.4 in the words of the specification:
  a new message is legal at \<^verbatim>\<open>SENDER_REQ\<close> for the three categories; an acknowledgement
  is legal for \<^verbatim>\<open>SIMPLEX\<close> at \<^verbatim>\<open>RECEIVER_ACK\<close> and for \<^verbatim>\<open>DUPLEX\<close> at
  \<^verbatim>\<open>RECEIVER_ACK\<close> and \<^verbatim>\<open>SENDER_ACK\<close>.
\<close>

datatype entryPoint = handleNew | handleAck

definition handle ::
  "entryPoint \<Rightarrow> utils \<Rightarrow> 64 word \<Rightarrow> MsgPayload \<Rightarrow> MessageListener \<Rightarrow> handled" where
  "handle ep = (case ep of handleNew \<Rightarrow> HandleNew | handleAck \<Rightarrow> HandleAck)"

definition legal :: "MessageCategory \<Rightarrow> MessagePhase \<Rightarrow> entryPoint \<Rightarrow> bool" where
  "legal c ph ep =
     (case ep of
        handleNew \<Rightarrow> (c = NOTICE \<or> c = SIMPLEX \<or> c = DUPLEX) \<and> ph = SenderReq
      | handleAck \<Rightarrow>
          (c = SIMPLEX \<and> ph = ReceiverAck) \<or> (c = DUPLEX \<and> ph = ReceiverAck)
          \<or> (c = DUPLEX \<and> ph = SenderAck))"

definition is_InvalidPhase :: "error option \<Rightarrow> bool" where
  "is_InvalidPhase e = (case e of Some (InvalidPhase ph) \<Rightarrow> True | _ \<Rightarrow> False)"

section \<open>Concrete inputs\<close>

text \<open>
  An envelope, a listener and a client for the concrete cases below. The library
  functions are replaced by stand-ins there: the hash by the identity, and the time is
  printed as the fixed text of the clock value used below, 1700000000. The envelope's
  signature field is not the computed one.
\<close>

definition example_utils :: utils where
  "example_utils = \<lparr>MD5 = (\<lambda>s. s), ToStr = (\<lambda>t. ''1700000000'')\<rparr>"

definition example_body :: MsgBody where
  "example_body = fmupd ''k'' ''v'' fmempty"

definition example_envelope :: "MessageCategory \<Rightarrow> MessagePhase \<Rightarrow> MsgBody option \<Rightarrow> MsgPayload" where
  "example_envelope c ph b =
     \<lparr>Category = c, Genre = ''ping'', MsgId = ''42'', SrcAckQueue = ''sys_amq_0001_biz'',
      DstNewQueue = ''sys_amq_0002_biz'', DstAckQueue = ''sys_amq_0002_fund'', Body = b,
      SendTime = 1699999990, Phase = ph, Sign = ''forged''\<rparr>"

definition example_reply :: MsgBody where
  "example_reply = fmupd ''ok'' ''1'' fmempty"

definition example_listener :: MessageListener where
  "example_listener =
     \<lparr>OnReceived = (\<lambda>m. (Some example_reply, Some (OtherError ''late''))),
      OnRecipientAckReceived = (\<lambda>g i b. (Some example_reply, Some (OtherError ''late''))),
      OnSenderAckReceived = (\<lambda>g i b. None)\<rparr>"

definition listener_returning :: "MsgBody option \<Rightarrow> error option \<Rightarrow> MessageListener" where
  "listener_returning rsp e =
     \<lparr>OnReceived = (\<lambda>m. (rsp, e)),
      OnRecipientAckReceived = (\<lambda>g i b. (rsp, e)),
      OnSenderAckReceived = (\<lambda>g i b. e)\<rparr>"

definition example_client :: Client where
  "example_client =
     \<lparr>systemId = ''0001'', node = BIZ, queueNamePattern = newClient_pattern 1,
      partitions = 1, provider_Send = (\<lambda>m. None)\<rparr>"

section \<open>Properties\<close>

subsection \<open>Helper lemmas on bodies\<close>

lemma sorted_keys_props:
  "sorted (sorted_keys mb)" "distinct (sorted_keys mb)" "set (sorted_keys mb) = fset (fmdom mb)"
  by (simp_all add: sorted_keys_def sorted_list_of_fset.rep_eq)

lemma sorted_keys_fmempty: "sorted_keys fmempty = []"
  by (simp add: sorted_keys_def sorted_list_of_fset.rep_eq)

lemma sorted_keys_fmupd:
  "sorted_keys (fmupd k v mb) = insort k (remove1 k (sorted_keys mb))"
proof -
  have "sorted_list_of_fset (finsert k A) = insort k (remove1 k (sorted_list_of_fset A))" for A
    by (simp add: sorted_list_of_fset.rep_eq sorted_list_of_set_remove)
  then show ?thesis by (simp add: sorted_keys_def)
qed

lemma write_entries_pos:
  "0 < i \<Longrightarrow> write_entries mb i ks buffer = buffer @ concat (map (\<lambda>k. '','' @ entry mb k) ks)"
  by (induction ks arbitrary: i buffer) (simp_all add: entry_def)

lemma join_comma: "join sep (x # xs) = x @ concat (map (\<lambda>y. sep @ y) xs)"
  by (induction xs arbitrary: x) simp_all

lemma fmdom_empty_iff: "fmdom mb = {||} \<longleftrightarrow> sorted_keys mb = []"
proof -
  have "sorted_keys mb = [] \<longleftrightarrow> fset (fmdom mb) = {}"
    using sorted_keys_props(3) [of mb] by (metis set_empty)
  then show ?thesis by (simp flip: bot_fset.rep_eq fset_inject)
qed

lemma ToString_refines: "ToString mb = canonicalSerialize mb (sorted_keys mb)"
proof (cases "sorted_keys mb")
  case Nil
  then show ?thesis by (simp add: ToString_def canonicalSerialize_def fmdom_empty_iff)
next
  case (Cons k ks)
  then show ?thesis
    by (simp add: ToString_def canonicalSerialize_def fmdom_empty_iff write_entries_pos
        join_comma comp_def entry_def)
qed

lemma Add_fmupd: "Add toStr mb key v = fmupd key (toStr v) mb"
proof -
  have "fcard (fmdom mb) < 1 \<Longrightarrow> mb = fmempty"
    by (simp add: fmdom_empty_iff) (metis fmdom_empty_iff fmrestrict_fset_dom fmrestrict_fset_null)
  then show ?thesis by (auto simp: Add_def Let_def)
qed

lemma fmlookup_add_all:
  "fmlookup (add_all toStr es mb) k =
     (case map_of (rev es) k of Some v \<Rightarrow> Some (toStr v) | None \<Rightarrow> fmlookup mb k)"
  unfolding add_all_def
  by (induction es arbitrary: mb) (auto simp: Add_fmupd map_add_def split: option.splits)

lemma map_of_rev_distinct: "distinct (map fst es) \<Longrightarrow> map_of (rev es) = map_of es"
  by (subst map_of_inject_set) (simp_all add: rev_map [symmetric])

lemma add_all_perm:
  assumes "distinct (map fst es)" "mset es' = mset es"
  shows "add_all toStr es' mb = add_all toStr es mb"
proof -
  have d': "distinct (map fst es')"
    using assms by (metis mset_eq_imp_distinct_iff mset_map)
  have "set es' = set es" using assms(2) by (metis set_mset_mset)
  then have "map_of es' = map_of es"
    using assms(1) d' by (simp add: map_of_inject_set)
  moreover have "map_of (rev es) = map_of es" "map_of (rev es') = map_of es'"
    using assms(1) d' by (simp_all add: map_of_rev_distinct)
  ultimately show ?thesis
    by (intro fmap_ext) (simp add: fmlookup_add_all)
qed

lemma same_content_same_body:
  assumes "fmdom mb' = fmdom mb" "\<forall>k. Get mb' k = Get mb k"
  shows "mb' = mb"
proof (rule fmap_ext)
  fix k
  show "fmlookup mb' k = fmlookup mb k"
  proof (cases "k |\<in>| fmdom mb")
    case True
    then obtain v v' where "fmlookup mb k = Some v" "fmlookup mb' k = Some v'"
      using assms(1) by (metis fmlookup_dom_iff)
    then show ?thesis using assms(2) [rule_format, of k] by (simp add: Get_def)
  next
    case False
    then show ?thesis using assms(1) by (metis fmdom_notD)
  qed
qed

subsection \<open>The canonical form of a body\<close>

text \<open>
  C5. \<^verbatim>\<open>ToString\<close> of a body is the canonical form over its keys in strictly ascending
  order (every key once): \<^verbatim>\<open>{"k1":"v1","k2":"v2"}\<close>, and the empty string for the empty
  body. It depends on the content only: two bodies with the same keys and the same value
  at every key have the same form, and adding the entries of a list with distinct keys
  in any other order gives the same form.
\<close>

theorem ToString_canonical:
  "ToString mb = canonicalSerialize mb (sorted_keys mb)
   \<and> sorted_wrt (<) (sorted_keys mb)
   \<and> set (sorted_keys mb) = fset (fmdom mb)
   \<and> ToString NewMessageBody = []
   \<and> (fmdom mb' = fmdom mb \<and> (\<forall>k. Get mb' k = Get mb k) \<longrightarrow> ToString mb' = ToString mb)
   \<and> (distinct (map fst es) \<and> mset es' = mset es \<longrightarrow>
        ToString (add_all toStr es' NewMessageBody) = ToString (add_all toStr es NewMessageBody))"
proof -
  have "sorted_wrt (<) (sorted_keys mb)"
    using sorted_keys_props(1,2) [of mb] by (simp add: strict_sorted_iff)
  moreover have "ToString NewMessageBody = []"
    by (simp add: ToString_refines canonicalSerialize_def NewMessageBody_def sorted_keys_fmempty)
  ultimately show ?thesis
    using ToString_refines sorted_keys_props(3) same_content_same_body add_all_perm
    by metis
qed

theorem ToString_canonical_witness:
  \<open>ToString (add_all id [(''b'', ''2''), (''a'', ''1'')] NewMessageBody) = ''{"a":"1","b":"2"}''
   \<and> ToString (add_all id [(''a'', ''1''), (''b'', ''2'')] NewMessageBody) =
       ToString (add_all id [(''b'', ''2''), (''a'', ''1'')] NewMessageBody)
   \<and> ToString (fmupd ''a'' ''1'' (fmupd ''b'' ''2'' fmempty)) =
       ToString (fmupd ''b'' ''2'' (fmupd ''a'' ''1'' fmempty))\<close>
proof -
  let ?es = "[(''b'', ''2''), (''a'', ''1'')]" and ?es' = "[(''a'', ''1''), (''b'', ''2'')]"
  let ?mb = "fmupd ''b'' ''2'' (fmupd ''a'' ''1'' fmempty)"
  let ?mb' = "fmupd ''a'' ''1'' (fmupd ''b'' ''2'' fmempty)"
  have h1: "distinct (map fst ?es) \<and> mset ?es' = mset ?es" by simp
  have h2: "fmdom ?mb' = fmdom ?mb \<and> (\<forall>k. Get ?mb' k = Get ?mb k)"
    by (auto simp: Get_def)
  note t = ToString_canonical [of ?mb ?mb' ?es ?es' id]
  from t have "ToString ?mb = canonicalSerialize ?mb (sorted_keys ?mb)" by blast
  moreover from t h1 have "ToString (add_all id ?es' NewMessageBody) =
      ToString (add_all id ?es NewMessageBody)" by blast
  moreover from t h2 have "ToString ?mb' = ToString ?mb" by blast
  moreover have "add_all id ?es NewMessageBody = fmupd ''a'' ''1'' (fmupd ''b'' ''2'' fmempty)"
    by (simp add: add_all_def Add_fmupd NewMessageBody_def)
  moreover have \<open>canonicalSerialize ?mb (sorted_keys ?mb) = ''{"a":"1","b":"2"}''\<close>
    by (simp add: canonicalSerialize_def sorted_keys_fmupd sorted_keys_fmempty entry_def Get_def)
  ultimately show ?thesis by (simp add: fmupd_reorder_neq)
qed

subsection \<open>The queue of an envelope\<close>

text \<open>
  C4. \<^verbatim>\<open>SendQueueName\<close> looks at the phase only: it returns the recipient's new-message
  queue at \<^verbatim>\<open>SENDER_REQ\<close>, the sender's acknowledgement queue at \<^verbatim>\<open>RECEIVER_ACK\<close>, the
  recipient's acknowledgement queue at \<^verbatim>\<open>SENDER_ACK\<close>, and for every other phase it
  fails with the invalid-phase error (whose text shows the phase as \<^verbatim>\<open>Unknown\<close>); it
  never returns a queue name then. Two envelopes
  with the same phase and the same three queue names get the same answer.
\<close>

theorem SendQueueName_by_phase:
  "SendQueueName (mpl\<lparr>Phase := SenderReq\<rparr>) = Inr (DstNewQueue mpl)
   \<and> SendQueueName (mpl\<lparr>Phase := ReceiverAck\<rparr>) = Inr (SrcAckQueue mpl)
   \<and> SendQueueName (mpl\<lparr>Phase := SenderAck\<rparr>) = Inr (DstAckQueue mpl)
   \<and> (ph \<notin> {SenderReq, ReceiverAck, SenderAck} \<longrightarrow>
        SendQueueName (mpl\<lparr>Phase := ph\<rparr>) = Inl (InvalidPhase ''Unknown''))
   \<and> (Phase mpl' = Phase mpl \<and> DstNewQueue mpl' = DstNewQueue mpl
        \<and> SrcAckQueue mpl' = SrcAckQueue mpl \<and> DstAckQueue mpl' = DstAckQueue mpl \<longrightarrow>
        SendQueueName mpl' = SendQueueName mpl)"
  by (simp add: SendQueueName_def MessagePhase_String_def SenderReq_def ReceiverAck_def
      SenderAck_def)

theorem SendQueueName_by_phase_witness:
  "''4'' \<notin> {SenderReq, ReceiverAck, SenderAck}
   \<and> SendQueueName (example_envelope SIMPLEX ''4'' None) = Inl (InvalidPhase ''Unknown'')
   \<and> SendQueueName (example_envelope SIMPLEX ReceiverAck None) = Inr ''sys_amq_0001_biz''"
proof -
  have h: "''4'' \<notin> {SenderReq, ReceiverAck, SenderAck}"
    by (simp add: SenderReq_def ReceiverAck_def SenderAck_def)
  have e: "(example_envelope SIMPLEX ph None)\<lparr>Phase := ph'\<rparr> = example_envelope SIMPLEX ph' None"
    for ph ph' by (simp add: example_envelope_def)
  from SendQueueName_by_phase [of "example_envelope SIMPLEX ''4'' None" "''4''"
      "example_envelope SIMPLEX ''4'' None"] h
  show ?thesis by (simp add: e) (simp add: example_envelope_def)
qed

subsection \<open>The handlers and the signature field\<close>

lemmas phase_defs = SenderReq_def ReceiverAck_def SenderAck_def
lemmas category_defs = NOTICE_def SIMPLEX_def DUPLEX_def

lemma Signature_ignores_Sign: "Signature u (mpl\<lparr>Sign := s\<rparr>) = Signature u mpl"
  by (simp add: Signature_def split: option.splits)

lemma NewPayload_ignores_Sign: "NewPayload u now (msg\<lparr>Sign := s\<rparr>) ph = NewPayload u now msg ph"
  by (simp add: NewPayload_def Let_def)

lemma Convert_ignore_Sign:
  "ConvertToNotice (msg\<lparr>Sign := s\<rparr>) = ConvertToNotice msg"
  "ConvertToSimplex (msg\<lparr>Sign := s\<rparr>) = ConvertToSimplex msg"
  "ConvertToDuplex (msg\<lparr>Sign := s\<rparr>) = ConvertToDuplex msg"
  by (simp_all add: ConvertToNotice_def ConvertToSimplex_def ConvertToDuplex_def Let_def)

lemma new_handlers_ignore_Sign:
  "noticeNew (msg\<lparr>Sign := s\<rparr>) l = noticeNew msg l"
  "simplexNew u now (msg\<lparr>Sign := s\<rparr>) l = simplexNew u now msg l"
  "duplexNew u now (msg\<lparr>Sign := s\<rparr>) l = duplexNew u now msg l"
  by (simp_all add: noticeNew_def simplexNew_def duplexNew_def Convert_ignore_Sign
      NewPayload_ignores_Sign Let_def split: prod.splits option.splits)

lemma ack_handlers_ignore_Sign:
  "simplexRecipientACK (msg\<lparr>Sign := s\<rparr>) l = simplexRecipientACK msg l"
  "duplexRecipientACK u now (msg\<lparr>Sign := s\<rparr>) l = duplexRecipientACK u now msg l"
  "duplexSenderACK (msg\<lparr>Sign := s\<rparr>) l = duplexSenderACK msg l"
  by (simp_all add: simplexRecipientACK_def duplexRecipientACK_def duplexSenderACK_def
      NewPayload_ignores_Sign Let_def split: prod.splits option.splits)

text \<open>
  C1, as the code has it. \<^verbatim>\<open>HandleNew\<close> and \<^verbatim>\<open>HandleAck\<close> never read the signature
  an envelope carries: with any other text in the signature field they make the same
  listener calls and return the same result. An envelope whose signature does not match
  is handled like one whose signature matches.
\<close>

theorem handlers_ignore_signature:
  "HandleNew u now (msg\<lparr>Sign := s\<rparr>) l = HandleNew u now msg l
   \<and> HandleAck u now (msg\<lparr>Sign := s\<rparr>) l = HandleAck u now msg l"
  by (simp add: HandleNew_def HandleAck_def new_handlers_ignore_Sign ack_handlers_ignore_Sign
      Let_def)

text \<open>
  C1 as stated fails: the example envelope carries a signature that is not the computed
  one, and \<^verbatim>\<open>HandleNew\<close> still calls \<^verbatim>\<open>OnReceived\<close> and returns the listener's own
  error.
\<close>

theorem signature_mismatch_counterexample:
  "Signature example_utils (example_envelope SIMPLEX SenderReq (Some example_body))
     \<noteq> Inr (Sign (example_envelope SIMPLEX SenderReq (Some example_body)))
   \<and> listener_calls (HandleNew example_utils 1700000000
        (example_envelope SIMPLEX SenderReq (Some example_body)) example_listener)
      = [Received (SimplexMessage ''ping'' ''42'' (Some example_body)
           ''sys_amq_0001_biz'' ''sys_amq_0002_biz'')]
   \<and> returned_error (HandleNew example_utils 1700000000
        (example_envelope SIMPLEX SenderReq (Some example_body)) example_listener)
      = Some (OtherError ''late'')"
  by (simp add: Signature_def example_envelope_def example_utils_def example_listener_def
      HandleNew_def simplexNew_def ConvertToSimplex_def NewSimplexMessage_def NewPayload_def
      SetBody_def SetSign_def listener_calls_def returned_error_def category_defs phase_defs
      MessageCategory_String_def)

subsection \<open>Illegal steps of the handshake\<close>

text \<open>
  C2, as the code has it. For every category, phase and entry point that the table does
  not list as legal, the entry point calls no listener, returns no reply envelope and
  fails: with the invalid-phase error when the category is \<^verbatim>\<open>SIMPLEX\<close> or \<^verbatim>\<open>DUPLEX\<close>,
  or \<^verbatim>\<open>NOTICE\<close> at \<^verbatim>\<open>HandleNew\<close>; with the invalid-message-type error, which names the
  category, in the other cases, that is \<^verbatim>\<open>NOTICE\<close> (or an unknown category) at
  \<^verbatim>\<open>HandleAck\<close> and an unknown category at \<^verbatim>\<open>HandleNew\<close>.
\<close>

theorem illegal_triple:
  assumes "\<not> legal (Category msg) (Phase msg) ep"
  shows "handle ep u now msg l =
    ([], Inr (None, Some (if Category msg = SIMPLEX \<or> Category msg = DUPLEX
                              \<or> (ep = handleNew \<and> Category msg = NOTICE)
                           then InvalidPhase (Phase msg)
                           else InvalidCategory (Category msg))))"
  using assms
  by (cases ep)
     (auto simp: legal_def handle_def HandleNew_def HandleAck_def noticeNew_def simplexNew_def
        duplexNew_def category_defs phase_defs)

theorem illegal_triple_witness:
  "\<not> legal SIMPLEX SenderAck handleAck
   \<and> HandleAck example_utils 1700000000 (example_envelope SIMPLEX SenderAck (Some example_body))
       example_listener = ([], Inr (None, Some (InvalidPhase SenderAck)))"
proof -
  have h: "\<not> legal (Category (example_envelope SIMPLEX SenderAck (Some example_body)))
             (Phase (example_envelope SIMPLEX SenderAck (Some example_body))) handleAck"
    by (simp add: legal_def example_envelope_def category_defs phase_defs)
  from illegal_triple [OF h, of example_utils 1700000000 example_listener] h
  show ?thesis
    by (simp add: handle_def example_envelope_def category_defs)
qed

text \<open>
  C2 as stated fails for a \<^verbatim>\<open>NOTICE\<close> envelope at an acknowledgement phase: the triple is
  not legal, and \<^verbatim>\<open>HandleAck\<close> fails with the invalid-message-type error, not with the
  invalid-phase error.
\<close>

theorem notice_ack_counterexample:
  "\<not> legal NOTICE ReceiverAck handleAck
   \<and> returned_error (handle handleAck example_utils 1700000000
        (example_envelope NOTICE ReceiverAck (Some example_body)) example_listener)
      = Some (InvalidCategory NOTICE)
   \<and> \<not> is_InvalidPhase (returned_error (handle handleAck example_utils 1700000000
          (example_envelope NOTICE ReceiverAck (Some example_body)) example_listener))"
  by (simp add: legal_def handle_def HandleAck_def example_envelope_def returned_error_def
      is_InvalidPhase_def category_defs phase_defs)

subsection \<open>Signing and building a reply\<close>

lemma Signature_returns: "Body mpl \<noteq> None \<Longrightarrow> \<exists>s. Signature u mpl = Inr s"
  by (auto simp: Signature_def)

lemma Signature_nil: "Body mpl = None \<Longrightarrow> Signature u mpl = Inl NilPointerDereference"
  by (simp add: Signature_def)

lemma Signature_cong:
  assumes "Category a = Category b" "Genre a = Genre b" "MsgId a = MsgId b"
    "SrcAckQueue a = SrcAckQueue b" "DstAckQueue a = DstAckQueue b"
    "DstNewQueue a = DstNewQueue b" "Body a = Body b" "Phase a = Phase b"
    "SendTime a = SendTime b"
  shows "Signature u a = Signature u b"
  using assms by (simp add: Signature_def split: option.splits)

lemma NewPayload_result:
  assumes "Body msg \<noteq> None"
  shows "\<exists>s. NewPayload u now msg ph =
           Inr \<lparr>Category = Category msg, Genre = Genre msg, MsgId = MsgId msg,
                SrcAckQueue = SrcAckQueue msg, DstNewQueue = DstNewQueue msg,
                DstAckQueue = DstAckQueue msg, Body = Body msg, SendTime = now,
                Phase = ph, Sign = s\<rparr>
         \<and> Signature u \<lparr>Category = Category msg, Genre = Genre msg, MsgId = MsgId msg,
                SrcAckQueue = SrcAckQueue msg, DstNewQueue = DstNewQueue msg,
                DstAckQueue = DstAckQueue msg, Body = Body msg, SendTime = now,
                Phase = ph, Sign = s\<rparr> = Inr s"
proof -
  let ?m = "\<lparr>Category = Category msg, Genre = Genre msg, MsgId = MsgId msg,
                SrcAckQueue = SrcAckQueue msg, DstNewQueue = DstNewQueue msg,
                DstAckQueue = DstAckQueue msg, Body = Body msg, SendTime = now,
                Phase = ph, Sign = []\<rparr>"
  from assms obtain s where s: "Signature u ?m = Inr s"
    using Signature_returns [of ?m u] by auto
  have "Signature u (?m\<lparr>Sign := s\<rparr>) = Inr s"
    using s by (simp only: Signature_ignores_Sign)
  with s show ?thesis by (intro exI [of _ s]) (simp add: NewPayload_def)
qed

lemma NewPayload_nil: "Body msg = None \<Longrightarrow> NewPayload u now msg ph = Inl NilPointerDereference"
  by (simp add: NewPayload_def Signature_def)

lemma reply_built:
  assumes "Body mpl \<noteq> None"
  shows "\<exists>r. build_reply u now mpl ph rsp e = Inr (Some r, e)
     \<and> Category r = Category mpl \<and> Genre r = Genre mpl \<and> MsgId r = MsgId mpl
     \<and> SrcAckQueue r = SrcAckQueue mpl \<and> DstNewQueue r = DstNewQueue mpl
     \<and> DstAckQueue r = DstAckQueue mpl \<and> Body r = Some rsp \<and> SendTime r = now
     \<and> Phase r = ph \<and> Signature u r = Inr (Sign r)"
proof -
  from NewPayload_result [OF assms, of u now ph] obtain s0 m where
    m: "NewPayload u now mpl ph = Inr m"
       "m = \<lparr>Category = Category mpl, Genre = Genre mpl, MsgId = MsgId mpl,
                SrcAckQueue = SrcAckQueue mpl, DstNewQueue = DstNewQueue mpl,
                DstAckQueue = DstAckQueue mpl, Body = Body mpl, SendTime = now,
                Phase = ph, Sign = s0\<rparr>"
    by blast
  obtain s where s: "Signature u (SetBody m (Some rsp)) = Inr s"
    using Signature_returns [of "SetBody m (Some rsp)" u] by (auto simp: SetBody_def)
  have "Signature u (SetSign (SetBody m (Some rsp)) s) = Inr s"
    using s by (simp only: SetSign_def Signature_ignores_Sign)
  then show ?thesis
    using m s by (intro exI [of _ "SetSign (SetBody m (Some rsp)) s"])
      (simp add: build_reply_def SetSign_def SetBody_def)
qed

lemma reply_panics:
  "Body mpl = None \<Longrightarrow> build_reply u now mpl ph rsp e = Inl NilPointerDereference"
  by (simp add: build_reply_def NewPayload_nil)


lemma simplexNew_unfold:
  "simplexNew u now mpl listener =
     (let phase = Phase mpl in
      if phase \<noteq> SenderReq then ([], Inr (None, Some (InvalidPhase phase)))
      else case ConvertToSimplex mpl of
          (m, Some err) \<Rightarrow> ([], Inr (None, Some err))
        | (m, None) \<Rightarrow>
            (case OnReceived listener m of
               (None, err) \<Rightarrow> ([Received m], Inr (None, err))
             | (Some rsp, err) \<Rightarrow>
                 ([Received m], build_reply u now mpl ReceiverAck rsp err)))"
  unfolding simplexNew_def build_reply_def ..

lemma duplexNew_unfold:
  "duplexNew u now mpl listener =
     (let phase = Phase mpl in
      if phase \<noteq> SenderReq then ([], Inr (None, Some (InvalidPhase phase)))
      else case ConvertToDuplex mpl of
          (m, Some err) \<Rightarrow> ([], Inr (None, Some err))
        | (m, None) \<Rightarrow>
            (case OnReceived listener m of
               (None, err) \<Rightarrow> ([Received m], Inr (None, err))
             | (Some rsp, err) \<Rightarrow>
                 ([Received m], build_reply u now mpl ReceiverAck rsp err)))"
  unfolding duplexNew_def build_reply_def ..

lemma duplexRecipientACK_unfold:
  "duplexRecipientACK u now mpl listener =
     (let phase = Phase mpl in
      if phase \<noteq> ReceiverAck then ([], Inr (None, Some (InvalidPhase (Phase mpl))))
      else case OnRecipientAckReceived listener (Genre mpl) (MsgId mpl) (Body mpl) of
          (None, err) \<Rightarrow>
            ([RecipientAckReceived (Genre mpl) (MsgId mpl) (Body mpl)], Inr (None, err))
        | (Some rsp, err) \<Rightarrow>
            ([RecipientAckReceived (Genre mpl) (MsgId mpl) (Body mpl)],
             build_reply u now mpl SenderAck rsp err))"
  unfolding duplexRecipientACK_def build_reply_def ..

lemma simplexNew_called:
  assumes "Category mpl = SIMPLEX" "Phase mpl = SenderReq"
  shows "simplexNew u now mpl l =
    (let m = SimplexMessage (Genre mpl) (MsgId mpl) (Body mpl) (SrcAckQueue mpl) (DstNewQueue mpl)
     in ([Received m],
         case OnReceived l m of
           (None, e) \<Rightarrow> Inr (None, e)
         | (Some rsp, e) \<Rightarrow> build_reply u now mpl ReceiverAck rsp e))"
  using assms
  by (simp add: simplexNew_unfold ConvertToSimplex_def NewSimplexMessage_def Let_def
      split: prod.splits option.splits)

lemma duplexNew_called:
  assumes "Category mpl = DUPLEX" "Phase mpl = SenderReq"
  shows "duplexNew u now mpl l =
    (let m = DuplexMessage (Genre mpl) (MsgId mpl) (Body mpl) (SrcAckQueue mpl)
               (DstNewQueue mpl) (DstAckQueue mpl)
     in ([Received m],
         case OnReceived l m of
           (None, e) \<Rightarrow> Inr (None, e)
         | (Some rsp, e) \<Rightarrow> build_reply u now mpl ReceiverAck rsp e))"
  using assms
  by (simp add: duplexNew_unfold ConvertToDuplex_def NewDuplexMessage_def Let_def
      split: prod.splits option.splits)

lemma duplexRecipientACK_called:
  assumes "Phase mpl = ReceiverAck"
  shows "duplexRecipientACK u now mpl l =
    ([RecipientAckReceived (Genre mpl) (MsgId mpl) (Body mpl)],
     case OnRecipientAckReceived l (Genre mpl) (MsgId mpl) (Body mpl) of
       (None, e) \<Rightarrow> Inr (None, e)
     | (Some rsp, e) \<Rightarrow> build_reply u now mpl SenderAck rsp e)"
  using assms
  by (simp add: duplexRecipientACK_unfold Let_def split: prod.splits option.splits)

subsection \<open>New transactional messages\<close>

lemma HandleNew_transactional:
  assumes "Category msg = SIMPLEX \<or> Category msg = DUPLEX" "Phase msg = SenderReq"
  shows "HandleNew u now msg l =
      ([Received (variant msg)],
       case fst (OnReceived l (variant msg)) of
         None \<Rightarrow> Inr (None, snd (OnReceived l (variant msg)))
       | Some b \<Rightarrow> build_reply u now msg ReceiverAck b (snd (OnReceived l (variant msg))))"
proof (cases "Category msg = SIMPLEX")
  case True
  then have m: "variant msg =
      SimplexMessage (Genre msg) (MsgId msg) (Body msg) (SrcAckQueue msg) (DstNewQueue msg)"
    by (simp add: variant_def ConvertToSimplex_def NewSimplexMessage_def Let_def)
  show ?thesis
    using True assms(2) unfolding m
    by (simp add: HandleNew_def simplexNew_called category_defs Let_def
        split: option.splits prod.splits)
next
  case False
  with assms(1) have D: "Category msg = DUPLEX" by simp
  then have m: "variant msg = DuplexMessage (Genre msg) (MsgId msg) (Body msg) (SrcAckQueue msg)
      (DstNewQueue msg) (DstAckQueue msg)"
    by (simp add: variant_def ConvertToDuplex_def NewDuplexMessage_def Let_def category_defs)
  show ?thesis
    using D assms(2) unfolding m
    by (simp add: HandleNew_def duplexNew_called category_defs Let_def
        split: option.splits prod.splits)
qed

text \<open>
  C3, as the code has it. For every \<^verbatim>\<open>SIMPLEX\<close> or \<^verbatim>\<open>DUPLEX\<close> envelope at
  \<^verbatim>\<open>SENDER_REQ\<close>, \<^verbatim>\<open>HandleNew\<close> calls \<^verbatim>\<open>OnReceived\<close> once with the typed message.
  It panics exactly when the listener returns a body and the envelope's own \<^verbatim>\<open>Body\<close>
  pointer is nil. It returns a reply envelope exactly when the listener returns a body
  (a pointer that is not nil; the body may have no entries) and the envelope carries a
  body; the reply is at \<^verbatim>\<open>RECEIVER_ACK\<close> and carries the listener's body. Whenever the
  call returns, with or without a reply, it returns the listener's error; so when the
  listener returns no body, no envelope is produced and the listener's error is
  returned, for every envelope.
\<close>

theorem HandleNew_reply_iff_body:
  assumes "Category msg = SIMPLEX \<or> Category msg = DUPLEX" "Phase msg = SenderReq"
  shows "listener_calls (HandleNew u now msg l) = [Received (variant msg)]
     \<and> panicked (HandleNew u now msg l) =
         (fst (OnReceived l (variant msg)) \<noteq> None \<and> Body msg = None)
     \<and> map_option Phase (reply_envelope (HandleNew u now msg l)) =
         (if fst (OnReceived l (variant msg)) = None \<or> Body msg = None then None
          else Some ReceiverAck)
     \<and> map_option Body (reply_envelope (HandleNew u now msg l)) =
         (if fst (OnReceived l (variant msg)) = None \<or> Body msg = None then None
          else Some (fst (OnReceived l (variant msg))))
     \<and> returned_error (HandleNew u now msg l) =
         (if panicked (HandleNew u now msg l) then None
          else snd (OnReceived l (variant msg)))"
proof -
  note H = HandleNew_transactional [OF assms, of u now l]
  show ?thesis
  proof (cases "fst (OnReceived l (variant msg))")
    case None
    then show ?thesis using H
      by (simp add: listener_calls_def panicked_def reply_envelope_def returned_error_def)
  next
    case (Some b)
    show ?thesis
    proof (cases "Body msg = None")
      case True
      then show ?thesis using H Some
        by (simp add: reply_panics listener_calls_def panicked_def reply_envelope_def
            returned_error_def)
    next
      case False
      from reply_built [OF False, of u now ReceiverAck b "snd (OnReceived l (variant msg))"]
      obtain rp where
        "build_reply u now msg ReceiverAck b (snd (OnReceived l (variant msg)))
           = Inr (Some rp, snd (OnReceived l (variant msg)))"
        "Phase rp = ReceiverAck" "Body rp = Some b"
        by blast
      then show ?thesis using H Some False
        by (simp add: listener_calls_def panicked_def reply_envelope_def returned_error_def)
    qed
  qed
qed

text \<open>
  C3 as stated fails twice. For an envelope whose \<^verbatim>\<open>Body\<close> is nil, the listener returns
  a body and \<^verbatim>\<open>NewPayload\<close> panics while signing: no reply envelope is produced. And a
  listener that returns a body without entries (not nil, but empty) does get a reply
  envelope.
\<close>

theorem nil_body_reply_counterexample:
  "fst (OnReceived example_listener (variant (example_envelope SIMPLEX SenderReq None))) \<noteq> None
   \<and> reply_envelope (HandleNew example_utils 1700000000
         (example_envelope SIMPLEX SenderReq None) example_listener) = None
   \<and> panicked (HandleNew example_utils 1700000000
         (example_envelope SIMPLEX SenderReq None) example_listener)
   \<and> fst (OnReceived (listener_returning (Some NewMessageBody) None)
         (variant (example_envelope SIMPLEX SenderReq (Some example_body))))
       = Some NewMessageBody
   \<and> fmdom NewMessageBody = {||}
   \<and> map_option Phase (reply_envelope (HandleNew example_utils 1700000000
         (example_envelope SIMPLEX SenderReq (Some example_body))
         (listener_returning (Some NewMessageBody) None))) = Some ReceiverAck"
  by (simp add: example_listener_def listener_returning_def HandleNew_def simplexNew_called
      build_reply_def NewPayload_nil NewPayload_def Signature_def SetBody_def SetSign_def
      reply_envelope_def panicked_def example_envelope_def NewMessageBody_def category_defs
      phase_defs)

theorem HandleNew_reply_iff_body_witness:
  "HandleNew example_utils 1700000000 (example_envelope SIMPLEX SenderReq None)
       (listener_returning None (Some (OtherError ''busy'')))
     = ([Received (SimplexMessage ''ping'' ''42'' None ''sys_amq_0001_biz'' ''sys_amq_0002_biz'')],
        Inr (None, Some (OtherError ''busy'')))
   \<and> listener_calls (HandleNew example_utils 1700000000
       (example_envelope DUPLEX SenderReq (Some example_body)) example_listener)
     = [Received (DuplexMessage ''ping'' ''42'' (Some example_body) ''sys_amq_0001_biz''
          ''sys_amq_0002_biz'' ''sys_amq_0002_fund'')]
   \<and> map_option Phase (reply_envelope (HandleNew example_utils 1700000000
       (example_envelope DUPLEX SenderReq (Some example_body)) example_listener))
     = Some ReceiverAck
   \<and> map_option Body (reply_envelope (HandleNew example_utils 1700000000
       (example_envelope DUPLEX SenderReq (Some example_body)) example_listener))
     = Some (Some example_reply)
   \<and> returned_error (HandleNew example_utils 1700000000
       (example_envelope DUPLEX SenderReq (Some example_body)) example_listener)
     = Some (OtherError ''late'')"
proof -
  let ?e = "example_envelope DUPLEX SenderReq (Some example_body)"
  let ?n = "example_envelope SIMPLEX SenderReq None"
  let ?q = "listener_returning None (Some (OtherError ''busy''))"
  have h: "Category ?e = SIMPLEX \<or> Category ?e = DUPLEX" "Phase ?e = SenderReq"
    by (simp_all add: example_envelope_def)
  have hn: "Category ?n = SIMPLEX \<or> Category ?n = DUPLEX" "Phase ?n = SenderReq"
    by (simp_all add: example_envelope_def)
  have v: "variant ?e = DuplexMessage ''ping'' ''42'' (Some example_body) ''sys_amq_0001_biz''
          ''sys_amq_0002_biz'' ''sys_amq_0002_fund''"
    by (simp add: variant_def example_envelope_def ConvertToDuplex_def NewDuplexMessage_def
        category_defs)
  have vn: "variant ?n = SimplexMessage ''ping'' ''42'' None ''sys_amq_0001_biz''
          ''sys_amq_0002_biz''"
    by (simp add: variant_def example_envelope_def ConvertToSimplex_def NewSimplexMessage_def
        category_defs)
  have b: "Body ?e \<noteq> None" by (simp add: example_envelope_def)
  from HandleNew_reply_iff_body [OF h, of example_utils 1700000000 example_listener] b
  have 1: "listener_calls (HandleNew example_utils 1700000000 ?e example_listener)
       = [Received (variant ?e)]
     \<and> map_option Phase (reply_envelope (HandleNew example_utils 1700000000 ?e example_listener))
       = Some ReceiverAck
     \<and> map_option Body (reply_envelope (HandleNew example_utils 1700000000 ?e example_listener))
       = Some (Some example_reply)
     \<and> returned_error (HandleNew example_utils 1700000000 ?e example_listener)
       = Some (OtherError ''late'')"
    by (simp add: example_listener_def)
  from HandleNew_reply_iff_body [OF hn, of example_utils 1700000000 ?q]
  have 2: "listener_calls (HandleNew example_utils 1700000000 ?n ?q) = [Received (variant ?n)]
     \<and> \<not> panicked (HandleNew example_utils 1700000000 ?n ?q)
     \<and> reply_envelope (HandleNew example_utils 1700000000 ?n ?q) = None
     \<and> returned_error (HandleNew example_utils 1700000000 ?n ?q) = Some (OtherError ''busy'')"
    by (simp add: listener_returning_def)
  from 2 have "HandleNew example_utils 1700000000 ?n ?q
      = ([Received (variant ?n)], Inr (None, Some (OtherError ''busy'')))"
    by (cases "HandleNew example_utils 1700000000 ?n ?q")
       (auto simp: listener_calls_def panicked_def reply_envelope_def returned_error_def
          split: sum.splits)
  with 1 show ?thesis unfolding v vn by simp
qed

subsection \<open>Notices\<close>

text \<open>
  C7. For every \<^verbatim>\<open>NOTICE\<close> envelope at \<^verbatim>\<open>SENDER_REQ\<close> and every listener,
  \<^verbatim>\<open>HandleNew\<close> calls \<^verbatim>\<open>OnReceived\<close> once, with the notice that carries the
  envelope's genre, id and body and \<^verbatim>\<open>DstNewQueue\<close> as its destination; it returns no
  reply envelope whatever the listener returns, and the listener's error.
\<close>

theorem notice_delivered_without_reply:
  assumes "Category msg = NOTICE" "Phase msg = SenderReq"
  shows "HandleNew u now msg l =
     ([Received (NoticeMessage (Genre msg) (MsgId msg) (Body msg) (DstNewQueue msg))],
      Inr (None, snd (OnReceived l
        (NoticeMessage (Genre msg) (MsgId msg) (Body msg) (DstNewQueue msg)))))"
  using assms
  by (simp add: HandleNew_def noticeNew_def ConvertToNotice_def NewNoticeMessage_def Let_def
      split: prod.splits)

theorem notice_delivered_without_reply_witness:
  "HandleNew example_utils 1700000000 (example_envelope NOTICE SenderReq (Some fmempty))
     example_listener =
     ([Received (NoticeMessage ''ping'' ''42'' (Some fmempty) ''sys_amq_0002_biz'')],
      Inr (None, Some (OtherError ''late'')))"
proof -
  let ?e = "example_envelope NOTICE SenderReq (Some fmempty)"
  have h: "Category ?e = NOTICE" "Phase ?e = SenderReq"
    by (simp_all add: example_envelope_def)
  from notice_delivered_without_reply [OF h, of example_utils 1700000000 example_listener]
  show ?thesis by (simp add: example_envelope_def example_listener_def)
qed

subsection \<open>The signature\<close>

text \<open>
  C8. \<^verbatim>\<open>Signature\<close> is a function of the nine signed fields: two envelopes that agree
  on category, genre, id, the three queue names, body content, phase and send time get
  the same outcome whatever their signature fields hold, and that outcome is one and the
  same string when the body is there (with a nil body both calls panic).
\<close>

theorem Signature_deterministic:
  assumes "Category a = Category b" "Genre a = Genre b" "MsgId a = MsgId b"
    "SrcAckQueue a = SrcAckQueue b" "DstAckQueue a = DstAckQueue b"
    "DstNewQueue a = DstNewQueue b" "Body a = Body b" "Phase a = Phase b"
    "SendTime a = SendTime b"
  shows "Signature u a = Signature u b
     \<and> (if Body a = None then Signature u a = Inl NilPointerDereference
         else \<exists>s. Signature u a = Inr s \<and> Signature u b = Inr s)"
proof -
  have "Signature u a = Signature u b" using assms by (rule Signature_cong)
  then show ?thesis
    using Signature_returns [of a u] Signature_nil [of a u] by auto
qed

theorem Signature_deterministic_witness:
  "Signature example_utils (example_envelope SIMPLEX SenderReq (Some example_body)) =
   Signature example_utils ((example_envelope SIMPLEX SenderReq (Some example_body))\<lparr>Sign := []\<rparr>)"
proof -
  let ?a = "example_envelope SIMPLEX SenderReq (Some example_body)"
  let ?b = "?a\<lparr>Sign := []\<rparr>"
  have h: "Category ?a = Category ?b" "Genre ?a = Genre ?b" "MsgId ?a = MsgId ?b"
    "SrcAckQueue ?a = SrcAckQueue ?b" "DstAckQueue ?a = DstAckQueue ?b"
    "DstNewQueue ?a = DstNewQueue ?b" "Body ?a = Body ?b" "Phase ?a = Phase ?b"
    "SendTime ?a = SendTime ?b"
    by simp_all
  from Signature_deterministic [OF h, of example_utils] show ?thesis by blast
qed

subsection \<open>A new envelope from a prior one\<close>

text \<open>
  C6, as the code has it. For every prior envelope that carries a body (its \<^verbatim>\<open>Body\<close>
  pointer is not nil) and every phase, \<^verbatim>\<open>NewPayload\<close> returns a new envelope, stored at
  a fresh address, whose category, genre, id, three queue names and body are those of
  the prior envelope, whose phase is the given one, whose send time is the clock's, and
  whose signature is the one computed over these fields. The store is the old one with
  the new envelope added: the prior envelope is as it was.
\<close>

theorem NewPayload_copies_prior:
  assumes "p < length h" "Body (h ! p) \<noteq> None"
  shows "\<exists>mpl. NewPayload_store u now h p phase = (h @ [mpl], Inr (length h))
     \<and> NewPayload u now (h ! p) phase = Inr mpl
     \<and> Category mpl = Category (h ! p) \<and> Genre mpl = Genre (h ! p)
     \<and> MsgId mpl = MsgId (h ! p) \<and> SrcAckQueue mpl = SrcAckQueue (h ! p)
     \<and> DstNewQueue mpl = DstNewQueue (h ! p) \<and> DstAckQueue mpl = DstAckQueue (h ! p)
     \<and> Body mpl = Body (h ! p) \<and> Phase mpl = phase \<and> SendTime mpl = now
     \<and> Signature u mpl = Inr (Sign mpl)
     \<and> (h @ [mpl]) ! p = h ! p"
proof -
  from NewPayload_result [OF assms(2), of u now phase] obtain s where
    s: "NewPayload u now (h ! p) phase =
           Inr \<lparr>Category = Category (h ! p), Genre = Genre (h ! p), MsgId = MsgId (h ! p),
                SrcAckQueue = SrcAckQueue (h ! p), DstNewQueue = DstNewQueue (h ! p),
                DstAckQueue = DstAckQueue (h ! p), Body = Body (h ! p), SendTime = now,
                Phase = phase, Sign = s\<rparr>"
      "Signature u \<lparr>Category = Category (h ! p), Genre = Genre (h ! p), MsgId = MsgId (h ! p),
                SrcAckQueue = SrcAckQueue (h ! p), DstNewQueue = DstNewQueue (h ! p),
                DstAckQueue = DstAckQueue (h ! p), Body = Body (h ! p), SendTime = now,
                Phase = phase, Sign = s\<rparr> = Inr s"
    by blast
  let ?mpl = "\<lparr>Category = Category (h ! p), Genre = Genre (h ! p), MsgId = MsgId (h ! p),
                SrcAckQueue = SrcAckQueue (h ! p), DstNewQueue = DstNewQueue (h ! p),
                DstAckQueue = DstAckQueue (h ! p), Body = Body (h ! p), SendTime = now,
                Phase = phase, Sign = s\<rparr>"
  have sig0: "Signature u (?mpl\<lparr>Sign := []\<rparr>) = Inr s"
    using s(2) by (simp only: Signature_ignores_Sign)
  have "NewPayload_store u now h p phase = (h @ [?mpl], Inr (length h))"
    using assms(1) sig0 by (simp add: NewPayload_store_def nth_append Let_def)
  then show ?thesis
    using s assms(1) by (intro exI [of _ ?mpl]) (simp add: nth_append)
qed

text \<open>
  C6 as stated fails for a prior envelope whose \<^verbatim>\<open>Body\<close> is nil: \<^verbatim>\<open>NewPayload\<close> panics
  in \<^verbatim>\<open>Signature\<close> and returns nothing.
\<close>

theorem NewPayload_nil_body_counterexample:
  "NewPayload example_utils 1700000000 (example_envelope SIMPLEX SenderReq None) ReceiverAck
     = Inl NilPointerDereference
   \<and> NewPayload_store example_utils 1700000000 [example_envelope SIMPLEX SenderReq None] 0
       ReceiverAck
     = ([example_envelope SIMPLEX SenderReq None,
         (example_envelope SIMPLEX SenderReq None)
           \<lparr>SendTime := 1700000000, Phase := ReceiverAck, Sign := []\<rparr>],
        Inl NilPointerDereference)"
  by (simp add: NewPayload_nil NewPayload_store_def example_envelope_def Signature_def)

theorem NewPayload_copies_prior_witness:
  \<open>NewPayload_store example_utils 1700000000
      [example_envelope DUPLEX ReceiverAck (Some example_body)] 0 SenderAck
   = ([example_envelope DUPLEX ReceiverAck (Some example_body),
       (example_envelope DUPLEX ReceiverAck (Some example_body))
         \<lparr>SendTime := 1700000000, Phase := SenderAck,
          Sign := ''category=DUPLEXtype=pingmsgId=42queue=sys_amq_0001_bizsys_amq_0002_fundsys_amq_0002_bizbody={"k":"v"}@phase=SENDER_ACK@sendTime=1700000000@#$dz874&*&*#@@$^&^FS()()!@FSF''\<rparr>],
      Inr 1)\<close>
proof -
  let ?h = "[example_envelope DUPLEX ReceiverAck (Some example_body)]"
  have h: "0 < length ?h" "Body (?h ! 0) \<noteq> None"
    by (simp_all add: example_envelope_def)
  from NewPayload_copies_prior [OF h, of example_utils 1700000000 SenderAck]
  obtain mpl where m: "NewPayload_store example_utils 1700000000 ?h 0 SenderAck = (?h @ [mpl], Inr (length ?h))"
    "NewPayload example_utils 1700000000 (?h ! 0) SenderAck = Inr mpl"
    by blast
  have \<open>ToString example_body = ''{"k":"v"}''\<close>
    by (simp add: example_body_def ToString_refines canonicalSerialize_def sorted_keys_fmupd
        sorted_keys_fmempty entry_def Get_def)
  then have \<open>NewPayload example_utils 1700000000 (?h ! 0) SenderAck =
     Inr ((example_envelope DUPLEX ReceiverAck (Some example_body))
         \<lparr>SendTime := 1700000000, Phase := SenderAck,
          Sign := ''category=DUPLEXtype=pingmsgId=42queue=sys_amq_0001_bizsys_amq_0002_fundsys_amq_0002_bizbody={"k":"v"}@phase=SENDER_ACK@sendTime=1700000000@#$dz874&*&*#@@$^&^FS()()!@FSF''\<rparr>)\<close>
    by (simp add: NewPayload_def Signature_def example_envelope_def example_utils_def
        MessageCategory_String_def MessagePhase_String_def category_defs phase_defs)
  with m show ?thesis by simp
qed

subsection \<open>A reply together with an error\<close>

text \<open>
  C10, as the code has it. When the inbound envelope carries a body (its \<^verbatim>\<open>Body\<close>
  pointer is not nil) and the listener returns both a body and an error, \<^verbatim>\<open>simplexNew\<close>,
  \<^verbatim>\<open>duplexNew\<close> and \<^verbatim>\<open>duplexRecipientACK\<close> return both the reply envelope (at the
  next phase, with the listener's body, signed over its own fields) and that error.
\<close>

theorem reply_and_error_both:
  assumes "Body mpl \<noteq> None"
  shows
   "(Category mpl = SIMPLEX \<and> Phase mpl = SenderReq
       \<and> OnReceived l (fst (ConvertToSimplex mpl)) = (Some rsp, Some e) \<longrightarrow>
     (\<exists>r. snd (simplexNew u now mpl l) = Inr (Some r, Some e)
        \<and> Phase r = ReceiverAck \<and> Body r = Some rsp \<and> Signature u r = Inr (Sign r)))
  \<and> (Category mpl = DUPLEX \<and> Phase mpl = SenderReq
       \<and> OnReceived l (fst (ConvertToDuplex mpl)) = (Some rsp, Some e) \<longrightarrow>
     (\<exists>r. snd (duplexNew u now mpl l) = Inr (Some r, Some e)
        \<and> Phase r = ReceiverAck \<and> Body r = Some rsp \<and> Signature u r = Inr (Sign r)))
  \<and> (Phase mpl = ReceiverAck
       \<and> OnRecipientAckReceived l (Genre mpl) (MsgId mpl) (Body mpl) = (Some rsp, Some e) \<longrightarrow>
     (\<exists>r. snd (duplexRecipientACK u now mpl l) = Inr (Some r, Some e)
        \<and> Phase r = SenderAck \<and> Body r = Some rsp \<and> Signature u r = Inr (Sign r)))"
proof -
  have b: "\<exists>r. build_reply u now mpl ph rsp (Some e) = Inr (Some r, Some e)
        \<and> Phase r = ph \<and> Body r = Some rsp \<and> Signature u r = Inr (Sign r)" for ph
    using reply_built [OF assms, of u now ph rsp "Some e"] by blast
  have 1: "Category mpl = SIMPLEX \<and> Phase mpl = SenderReq
       \<and> OnReceived l (fst (ConvertToSimplex mpl)) = (Some rsp, Some e) \<longrightarrow>
     snd (simplexNew u now mpl l) = build_reply u now mpl ReceiverAck rsp (Some e)"
    by (simp add: simplexNew_called ConvertToSimplex_def NewSimplexMessage_def Let_def)
  have 2: "Category mpl = DUPLEX \<and> Phase mpl = SenderReq
       \<and> OnReceived l (fst (ConvertToDuplex mpl)) = (Some rsp, Some e) \<longrightarrow>
     snd (duplexNew u now mpl l) = build_reply u now mpl ReceiverAck rsp (Some e)"
    by (simp add: duplexNew_called ConvertToDuplex_def NewDuplexMessage_def Let_def)
  have 3: "Phase mpl = ReceiverAck
       \<and> OnRecipientAckReceived l (Genre mpl) (MsgId mpl) (Body mpl) = (Some rsp, Some e) \<longrightarrow>
     snd (duplexRecipientACK u now mpl l) = build_reply u now mpl SenderAck rsp (Some e)"
    by (simp add: duplexRecipientACK_called)
  show ?thesis using 1 2 3 b [of ReceiverAck] b [of SenderAck] by simp
qed


text \<open>
  C10 as stated fails for an inbound envelope whose \<^verbatim>\<open>Body\<close> is nil: the listener
  returns a body and an error, and \<^verbatim>\<open>duplexRecipientACK\<close> panics; neither the reply
  nor the error is returned.
\<close>

theorem reply_and_error_nil_body_counterexample:
  "OnRecipientAckReceived example_listener ''ping'' ''42'' None
     = (Some example_reply, Some (OtherError ''late''))
   \<and> duplexRecipientACK example_utils 1700000000 (example_envelope DUPLEX ReceiverAck None)
       example_listener
     = ([RecipientAckReceived ''ping'' ''42'' None], Inl NilPointerDereference)"
  by (simp add: example_listener_def duplexRecipientACK_called build_reply_def NewPayload_nil
      example_envelope_def)

theorem reply_and_error_both_witness:
  "(\<exists>r. snd (simplexNew example_utils 1700000000
            (example_envelope SIMPLEX SenderReq (Some example_body)) example_listener)
          = Inr (Some r, Some (OtherError ''late''))
        \<and> Phase r = ReceiverAck \<and> Body r = Some example_reply)
   \<and> (\<exists>r. snd (duplexNew example_utils 1700000000
            (example_envelope DUPLEX SenderReq (Some example_body)) example_listener)
          = Inr (Some r, Some (OtherError ''late''))
        \<and> Phase r = ReceiverAck \<and> Body r = Some example_reply)
   \<and> (\<exists>r. snd (duplexRecipientACK example_utils 1700000000
            (example_envelope DUPLEX ReceiverAck (Some example_body)) example_listener)
          = Inr (Some r, Some (OtherError ''late''))
        \<and> Phase r = SenderAck \<and> Body r = Some example_reply)"
proof -
  let ?s = "example_envelope SIMPLEX SenderReq (Some example_body)"
  let ?d = "example_envelope DUPLEX SenderReq (Some example_body)"
  let ?a = "example_envelope DUPLEX ReceiverAck (Some example_body)"
  let ?e = "OtherError ''late''"
  have b: "Body ?s \<noteq> None" "Body ?d \<noteq> None" "Body ?a \<noteq> None"
    by (simp_all add: example_envelope_def)
  have hs: "Category ?s = SIMPLEX \<and> Phase ?s = SenderReq
      \<and> OnReceived example_listener (fst (ConvertToSimplex ?s)) = (Some example_reply, Some ?e)"
    by (simp add: example_envelope_def example_listener_def)
  have hd: "Category ?d = DUPLEX \<and> Phase ?d = SenderReq
      \<and> OnReceived example_listener (fst (ConvertToDuplex ?d)) = (Some example_reply, Some ?e)"
    by (simp add: example_envelope_def example_listener_def)
  have ha: "Phase ?a = ReceiverAck
      \<and> OnRecipientAckReceived example_listener (Genre ?a) (MsgId ?a) (Body ?a)
          = (Some example_reply, Some ?e)"
    by (simp add: example_envelope_def example_listener_def)
  from reply_and_error_both [OF b(1), of example_listener example_reply ?e example_utils 1700000000] hs
  have 1: "\<exists>r. snd (simplexNew example_utils 1700000000 ?s example_listener) = Inr (Some r, Some ?e)
        \<and> Phase r = ReceiverAck \<and> Body r = Some example_reply" by blast
  from reply_and_error_both [OF b(2), of example_listener example_reply ?e example_utils 1700000000] hd
  have 2: "\<exists>r. snd (duplexNew example_utils 1700000000 ?d example_listener) = Inr (Some r, Some ?e)
        \<and> Phase r = ReceiverAck \<and> Body r = Some example_reply" by blast
  from reply_and_error_both [OF b(3), of example_listener example_reply ?e example_utils 1700000000] ha
  have 3: "\<exists>r. snd (duplexRecipientACK example_utils 1700000000 ?a example_listener) = Inr (Some r, Some ?e)
        \<and> Phase r = SenderAck \<and> Body r = Some example_reply" by blast
  from 1 2 3 show ?thesis by blast
qed

subsection \<open>Queue names before a send\<close>

lemma find_unknownnode:
  "FindStringSubmatch SinglePartition ''sys_amq_0001_unknownnode''
     = [''sys_amq_0001_unknownnode'', ''sys_amq_0001'', ''unknownnode'']"
  by code_simp

lemma find_no_match: "FindStringSubmatch SinglePartition ''queue_biz'' = []"
  by code_simp

text \<open>
  C9 at a concrete message. The destination \<^verbatim>\<open>sys_amq_0001_unknownnode\<close> matches the
  pattern, its node is not a known one (\<^verbatim>\<open>IsValid\<close> returns an error), the check only
  logs the node and returns the message, and \<^verbatim>\<open>Send\<close> hands it to the transport and
  returns no error. A name in which the pattern finds no match anywhere is refused and
  nothing is sent.
\<close>

theorem Send_unknown_node_reaches_transport:
  "IsValid (GetNode ''unknownnode'') \<noteq> None
   \<and> messageCheck example_client (NoticeMessage ''ping'' ''42'' None ''sys_amq_0001_unknownnode'')
      = ([''unknownnode''], Inr (NoticeMessage ''ping'' ''42'' None ''sys_amq_0001_unknownnode''))
   \<and> Send example_client (NoticeMessage ''ping'' ''42'' None ''sys_amq_0001_unknownnode'')
      = ([''unknownnode''], [NoticeMessage ''ping'' ''42'' None ''sys_amq_0001_unknownnode''], None)
   \<and> Send example_client (NoticeMessage ''ping'' ''42'' None ''queue_biz'')
      = ([], [], Some (InvalidQueueName ''queue_biz''))"
proof -
  have v: "IsValid (GetNode ''unknownnode'') \<noteq> None"
    by (simp add: IsValid_def GetNode_def Node_String_def BIZ_def FUND_def OPT_def)
  have p: "queueNamePattern example_client = SinglePartition"
    by (simp add: example_client_def newClient_pattern_def)
  have c1: "check_names SinglePartition [''sys_amq_0001_unknownnode''] []
      = ([''unknownnode''], None)"
    using v by (simp add: find_unknownnode del: FindStringSubmatch.simps)
  have c2: "check_names SinglePartition [''queue_biz''] []
      = ([], Some (InvalidQueueName ''queue_biz''))"
    by (simp add: find_no_match del: FindStringSubmatch.simps)
  have s: "provider_Send example_client m = None" for m
    by (simp add: example_client_def)
  show ?thesis
    using v by (simp add: Send_def messageCheck_def nameList_def p c1 c2 s del: check_names.simps)
qed

end
